theory Spec2Isabelle
  imports Complex_Main "HOL-Library.Word"
begin

section \<open>JavaScript strings\<close>

text \<open>
  A JavaScript string is a sequence of UTF-16 code units and \<open>length\<close> counts code
  units, so a string is modelled as a list of 16-bit words. ASCII literals of the source
  are written through \<open>js\<close>.
\<close>

type_synonym jsstring = "16 word list"

definition js :: "string \<Rightarrow> jsstring" where
  "js s = map of_char s"

text \<open>
  The code units that \<open>String.prototype.trim\<close> strips and that the regular expression
  class \<open>\s\<close> matches: WhiteSpace and LineTerminator of ECMAScript.
\<close>

definition isWhiteSpace :: "16 word \<Rightarrow> bool" where
  "isWhiteSpace c =
     (c = 0x09 \<or> c = 0x0A \<or> c = 0x0B \<or> c = 0x0C \<or> c = 0x0D \<or> c = 0x20 \<or> c = 0xA0
      \<or> c = 0x1680 \<or> (0x2000 \<le> c \<and> c \<le> 0x200A) \<or> c = 0x2028 \<or> c = 0x2029
      \<or> c = 0x202F \<or> c = 0x205F \<or> c = 0x3000 \<or> c = 0xFEFF)"

definition trim :: "jsstring \<Rightarrow> jsstring" where
  "trim s = rev (dropWhile isWhiteSpace (rev (dropWhile isWhiteSpace s)))"

text \<open>\<open>s.split(sep)\<close> for a separator of one code unit: never the empty list.\<close>

fun split :: "16 word \<Rightarrow> jsstring \<Rightarrow> jsstring list" where
  "split sep [] = [[]]"
| "split sep (c # cs) =
     (if c = sep then [] # split sep cs
      else (case split sep cs of
              [] \<Rightarrow> [[c]]
            | w # ws \<Rightarrow> (c # w) # ws))"

text \<open>\<open>xs.join(sep)\<close>.\<close>

fun join :: "jsstring \<Rightarrow> jsstring list \<Rightarrow> jsstring" where
  "join sep [] = []"
| "join sep [x] = x"
| "join sep (x # y # ys) = x @ sep @ join sep (y # ys)"

text \<open>\<open>s.substring(0, n)\<close> for a natural number \<open>n\<close>.\<close>

definition substring0 :: "jsstring \<Rightarrow> nat \<Rightarrow> jsstring" where
  "substring0 s n = take n s"

text \<open>\<open>s.replace(/\s+/g, r)\<close>: every maximal run of white space becomes \<open>r\<close>.\<close>

fun replaceWhiteSpaceRuns :: "jsstring \<Rightarrow> jsstring \<Rightarrow> jsstring" where
  "replaceWhiteSpaceRuns r [] = []"
| "replaceWhiteSpaceRuns r [c] = (if isWhiteSpace c then r else [c])"
| "replaceWhiteSpaceRuns r (c # d # cs) =
     (if isWhiteSpace c
      then (if isWhiteSpace d then replaceWhiteSpaceRuns r (d # cs)
            else r @ replaceWhiteSpaceRuns r (d # cs))
      else c # replaceWhiteSpaceRuns r (d # cs))"

section \<open>Header name: truncation and wrapping\<close>

text \<open>\<open>truncateName\<close>; the default of \<open>maxLength\<close> is 30.\<close>

definition truncateName :: "jsstring \<Rightarrow> nat \<Rightarrow> jsstring" where
  "truncateName name maxLength =
     (if length name \<le> maxLength then name
      else substring0 name maxLength @ js ''...'')"

text \<open>
  One iteration of the \<open>for (const word of words)\<close> loop of \<open>splitNameForHeader\<close>, on
  the pair of \<open>lines\<close> and \<open>currentLine\<close>.
\<close>

definition wrapStep :: "nat \<Rightarrow> jsstring list \<times> jsstring \<Rightarrow> jsstring \<Rightarrow> jsstring list \<times> jsstring" where
  "wrapStep maxLineLength st word =
     (let lines = fst st; currentLine = snd st
      in if length (trim (currentLine @ js '' '' @ word)) \<le> maxLineLength
         then (lines, trim (currentLine @ js '' '' @ word))
         else ((if currentLine \<noteq> [] then lines @ [currentLine] else lines), word))"

text \<open>
  The wrapping of \<open>splitNameForHeader\<close>, from \<open>truncated.split(" ")\<close> to its
  \<open>return\<close>: the loop over the words, the last line, and the fallback for no line.
\<close>

definition wrapWords :: "jsstring \<Rightarrow> nat \<Rightarrow> jsstring list" where
  "wrapWords truncated maxLineLength =
     (let words = split 0x20 truncated;
          st = foldl (wrapStep maxLineLength) ([], []) words;
          lines = (if snd st \<noteq> [] then fst st @ [snd st] else fst st)
      in if length lines > 0 then lines
         else [substring0 truncated maxLineLength])"

text \<open>\<open>splitNameForHeader\<close>; the default of \<open>maxLineLength\<close> is 20.\<close>

definition splitNameForHeader :: "jsstring \<Rightarrow> nat \<Rightarrow> jsstring list" where
  "splitNameForHeader name maxLineLength =
     (let truncated = truncateName name 30
      in if length truncated \<le> maxLineLength then [truncated]
         else wrapWords truncated maxLineLength)"

section \<open>Numbers and strings\<close>

text \<open>
  \<open>Number.prototype.toString\<close> on an integer: decimal digits, most significant first,
  with a minus sign for a negative one. Integers are unbounded here; the source's doubles
  agree with them below \<open>2 ^ 53\<close>.
\<close>

fun digits :: "nat \<Rightarrow> jsstring" where
  "digits n = (if n < 10 then [0x30 + of_nat n] else digits (n div 10) @ [0x30 + of_nat (n mod 10)])"

declare digits.simps [simp del]

definition numToString :: "int \<Rightarrow> jsstring" where
  "numToString i = (if i < 0 then 0x2D # digits (nat (- i)) else digits (nat i))"

text \<open>The value of a code unit as a digit of the radix, if it is one.\<close>

definition digitValue :: "nat \<Rightarrow> 16 word \<Rightarrow> nat option" where
  "digitValue radix c =
     (let v = (if 0x30 \<le> c \<and> c \<le> 0x39 then Some (unat c - 0x30)
               else if 0x61 \<le> c \<and> c \<le> 0x7A then Some (unat c - 0x61 + 10)
               else if 0x41 \<le> c \<and> c \<le> 0x5A then Some (unat c - 0x41 + 10)
               else None)
      in case v of None \<Rightarrow> None | Some d \<Rightarrow> if d < radix then Some d else None)"

text \<open>
  \<open>parseInt(s)\<close> with no radix argument: leading white space is skipped, then an optional
  sign, then the prefix \<open>0x\<close> or \<open>0X\<close> selects radix 16, and the longest run of digits
  is read. \<open>None\<close> is \<open>NaN\<close>.
\<close>

definition parseInt :: "jsstring \<Rightarrow> int option" where
  "parseInt s =
     (let s1 = dropWhile isWhiteSpace s;
          sign = (case s1 of c # _ \<Rightarrow> if c = 0x2D then - 1 else (1::int) | [] \<Rightarrow> 1);
          s2 = (case s1 of c # r \<Rightarrow> if c = 0x2D \<or> c = 0x2B then r else s1 | [] \<Rightarrow> []);
          hex = (case s2 of a # b # _ \<Rightarrow> a = 0x30 \<and> (b = 0x78 \<or> b = 0x58) | _ \<Rightarrow> False);
          radix = (if hex then 16 else 10);
          s3 = (if hex then drop 2 s2 else s2);
          z = takeWhile (\<lambda>c. digitValue radix c \<noteq> None) s3
      in if z = [] then None
         else Some (sign * int (foldl (\<lambda>acc c. acc * radix + the (digitValue radix c)) 0 z)))"

section \<open>Data model\<close>

datatype ProjectStatus = planning | in_progress | completed_status | on_hold | cancelled

record PDFColor =
  r_c :: nat
  g_c :: nat
  b_c :: nat

text \<open>
  A milestone. The type has an optional \<open>dueDate\<close> too, which the two source files
  neither set nor read; it is left out.
\<close>

record ProjectMilestone =
  id_ms :: jsstring
  title :: jsstring
  description_ms :: jsstring
  completed :: bool

record TechStack =
  category :: jsstring
  technologies :: "jsstring list"

text \<open>
  The finalized project record, as the interface \<open>Project\<close> declares it: \<open>endDate\<close>,
  \<open>repository\<close>, \<open>documentation\<close> and \<open>notes\<close> are optional, and \<open>undefined\<close> is
  \<open>None\<close>.
\<close>

record Project =
  id_p :: jsstring
  uniqueCode_p :: jsstring
  name :: jsstring
  description :: jsstring
  sector :: jsstring
  status :: ProjectStatus
  startDate :: jsstring
  endDate :: "jsstring option"
  projectManager :: jsstring
  team_p :: "jsstring list"
  milestones_p :: "ProjectMilestone list"
  techStack_p :: "TechStack list"
  repository :: "jsstring option"
  documentation :: "jsstring option"
  notes_p :: "jsstring option"
  createdAt :: jsstring
  updatedAt :: jsstring

text \<open>The table \<open>statusLabels\<close>; the label of \<open>completed\<close> has the code unit 0xED.\<close>

fun statusLabels :: "ProjectStatus \<Rightarrow> jsstring" where
  "statusLabels planning = js ''Planejamento''"
| "statusLabels in_progress = js ''Em Andamento''"
| "statusLabels completed_status = js ''Conclu'' @ [0xED] @ js ''do''"
| "statusLabels on_hold = js ''Pausado''"
| "statusLabels cancelled = js ''Cancelado''"

text \<open>The values of the form, as the schema types them: optional fields may be \<open>undefined\<close>.\<close>

record ProjectFormValues =
  name_f :: jsstring
  sector_f :: jsstring
  description_f :: "jsstring option"
  status_f :: ProjectStatus
  startDate_f :: jsstring
  endDate_f :: "jsstring option"
  projectManager_f :: "jsstring option"
  repository_f :: "jsstring option"
  documentation_f :: "jsstring option"
  notes_f :: "jsstring option"

record NewMilestone =
  title_nm :: jsstring
  description_nm :: jsstring

record NewTech =
  category_nt :: jsstring
  technology :: jsstring

text \<open>
  The state of the \<open>App\<close> component: one field for each \<open>useState\<close>, and the object
  URLs that were created and not yet revoked.
\<close>

record view_state =
  uniqueCode :: jsstring
  team :: "jsstring list"
  milestones :: "ProjectMilestone list"
  techStack :: "TechStack list"
  showPreview :: bool
  selectedColor :: PDFColor
  newTeamMember :: jsstring
  newMilestone :: NewMilestone
  newTech :: NewTech
  qrCode :: jsstring
  pdfPreviewUrl :: "jsstring option"
  objectURLs :: "jsstring list"

section \<open>List operations of the view\<close>

text \<open>\<open>xs.filter((_, i) => P i)\<close>: the elements whose index satisfies \<open>P\<close>.\<close>

definition filterIndex :: "(nat \<Rightarrow> bool) \<Rightarrow> 'a list \<Rightarrow> 'a list" where
  "filterIndex P xs = map snd (filter (\<lambda>ix. P (fst ix)) (enumerate 0 xs))"

definition addTeamMember :: "view_state \<Rightarrow> view_state" where
  "addTeamMember st =
     (if trim (newTeamMember st) \<noteq> []
      then st\<lparr>team := team st @ [trim (newTeamMember st)], newTeamMember := []\<rparr>
      else st)"

definition removeTeamMember :: "int \<Rightarrow> view_state \<Rightarrow> view_state" where
  "removeTeamMember index st = st\<lparr>team := filterIndex (\<lambda>i. int i \<noteq> index) (team st)\<rparr>"

definition addMilestone :: "view_state \<Rightarrow> view_state" where
  "addMilestone st =
     (if trim (title_nm (newMilestone st)) \<noteq> []
      then
        (let milestone =
               \<lparr>id_ms = (if length (milestones st) \<noteq> 0
                          then (case parseInt (id_ms (milestones st ! (length (milestones st) - 1))) of
                                  None \<Rightarrow> js ''NaN''
                                | Some n \<Rightarrow> numToString (n + 1))
                          else js ''1''),
                title = trim (title_nm (newMilestone st)),
                description_ms = trim (description_nm (newMilestone st)),
                completed = False\<rparr>
         in st\<lparr>milestones := milestones st @ [milestone],
               newMilestone := \<lparr>title_nm = [], description_nm = []\<rparr>\<rparr>)
      else st)"

definition removeMilestone :: "jsstring \<Rightarrow> view_state \<Rightarrow> view_state" where
  "removeMilestone i st = st\<lparr>milestones := filter (\<lambda>m. id_ms m \<noteq> i) (milestones st)\<rparr>"

definition addTechnology :: "view_state \<Rightarrow> view_state" where
  "addTechnology st =
     (if trim (technology (newTech st)) \<noteq> []
      then
        (let st' =
               (case find (\<lambda>s. category s = category_nt (newTech st)) (techStack st) of
                  Some existingStack \<Rightarrow>
                    st\<lparr>techStack :=
                         map (\<lambda>s. if category s = category_nt (newTech st)
                                   then s\<lparr>technologies := technologies s @ [trim (technology (newTech st))]\<rparr>
                                   else s)
                             (techStack st)\<rparr>
                | None \<Rightarrow>
                    st\<lparr>techStack := techStack st @
                         [\<lparr>category = category_nt (newTech st),
                           technologies = [trim (technology (newTech st))]\<rparr>]\<rparr>)
         in st'\<lparr>newTech := (newTech st')\<lparr>technology := []\<rparr>\<rparr>)
      else st)"

definition removeTechnology :: "jsstring \<Rightarrow> jsstring \<Rightarrow> view_state \<Rightarrow> view_state" where
  "removeTechnology cat tech st =
     st\<lparr>techStack :=
          filter (\<lambda>s. length (technologies s) > 0)
            (map (\<lambda>s. if category s = cat
                       then s\<lparr>technologies := filter (\<lambda>t. t \<noteq> tech) (technologies s)\<rparr>
                       else s)
                 (techStack st))\<rparr>"

text \<open>The input handlers that fill the pending entries before an add.\<close>

definition setNewTeamMember :: "jsstring \<Rightarrow> view_state \<Rightarrow> view_state" where
  "setNewTeamMember v st = st\<lparr>newTeamMember := v\<rparr>"

definition setNewMilestone :: "NewMilestone \<Rightarrow> view_state \<Rightarrow> view_state" where
  "setNewMilestone v st = st\<lparr>newMilestone := v\<rparr>"

definition setNewTechnology :: "jsstring \<Rightarrow> view_state \<Rightarrow> view_state" where
  "setNewTechnology v st = st\<lparr>newTech := (newTech st)\<lparr>technology := v\<rparr>\<rparr>"

definition setNewTechCategory :: "jsstring \<Rightarrow> view_state \<Rightarrow> view_state" where
  "setNewTechCategory v st = st\<lparr>newTech := (newTech st)\<lparr>category_nt := v\<rparr>\<rparr>"

text \<open>A sequence of milestone actions of the user: type a title and a description and add, or remove by identifier.\<close>

datatype milestone_action = AddMilestone jsstring jsstring | RemoveMilestone jsstring

fun milestoneAction :: "view_state \<Rightarrow> milestone_action \<Rightarrow> view_state" where
  "milestoneAction st (AddMilestone t d) =
     addMilestone (setNewMilestone \<lparr>title_nm = t, description_nm = d\<rparr> st)"
| "milestoneAction st (RemoveMilestone i) = removeMilestone i st"

definition milestoneActions :: "milestone_action list \<Rightarrow> view_state \<Rightarrow> view_state" where
  "milestoneActions as st = foldl milestoneAction st as"

section \<open>The document and the environment of the renderer\<close>

text \<open>
  The jsPDF document is the log of the calls made on it, each with the page that was
  current, and its page counter. Numbers are rationals: every coordinate of the source is
  an integer, a half or an offset of the page size.
\<close>

datatype align = AlignLeft | AlignCenter

datatype draw =
    SetFillColor nat nat nat
  | SetTextColor nat nat nat
  | SetDrawColor nat nat nat
  | SetFont jsstring jsstring
  | SetFontSize nat
  | SetLineWidth rat
  | Rect rat rat rat rat jsstring
  | RoundedRect rat rat rat rat rat rat jsstring
  | Circle rat rat rat jsstring
  | Text "jsstring list" rat rat align
  | AddImage jsstring jsstring rat rat rat rat

record pdf =
  ops :: "(nat \<times> draw) list"
  numberOfPages :: nat
  currentPage :: nat

definition newDoc :: pdf where
  "newDoc = \<lparr>ops = [], numberOfPages = 1, currentPage = 1\<rparr>"

definition emit :: "draw \<Rightarrow> pdf \<Rightarrow> pdf" where
  "emit c d = d\<lparr>ops := ops d @ [(currentPage d, c)]\<rparr>"

definition emits :: "draw list \<Rightarrow> pdf \<Rightarrow> pdf" where
  "emits cs d = foldl (\<lambda>d' c. emit c d') d cs"

definition addPage :: "pdf \<Rightarrow> pdf" where
  "addPage d = d\<lparr>numberOfPages := numberOfPages d + 1, currentPage := numberOfPages d + 1\<rparr>"

definition setPage :: "nat \<Rightarrow> pdf \<Rightarrow> pdf" where
  "setPage i d = d\<lparr>currentPage := i\<rparr>"

definition drawRoundedRect :: "rat \<Rightarrow> rat \<Rightarrow> rat \<Rightarrow> rat \<Rightarrow> rat \<Rightarrow> draw" where
  "drawRoundedRect x y width height radius = RoundedRect x y width height radius radius (js ''F'')"

text \<open>
  The two ways the call can throw: the rejection of the QR encoder, and the \<open>TypeError\<close>
  of JavaScript for reading a property of \<open>undefined\<close> or \<open>null\<close>.
\<close>

datatype error = QRCodeError jsstring | TypeError jsstring

text \<open>
  A value that may be \<open>undefined\<close> or \<open>null\<close> is an option. An optional string is truthy
  when it is there and not empty. Reading a property of such a value or calling a method on
  it, as in \<open>project.repository.length\<close> or \<open>win.document.write\<close>, goes through
  \<open>member\<close>, which throws on \<open>undefined\<close> and \<open>null\<close>; passing an optional string where
  jsPDF reads a string does too. By their types these values are, in the renderer, the
  fields \<open>endDate\<close>, \<open>repository\<close>, \<open>documentation\<close> and \<open>notes\<close> of the record, the
  argument \<open>opts\<close>, which is read with \<open>?.\<close> only, and the result of \<open>window.open\<close>.
  \<open>andThen\<close> runs the rest of the function after a step that did not throw.
\<close>

definition truthy :: "jsstring option \<Rightarrow> bool" where
  "truthy v = (case v of None \<Rightarrow> False | Some t \<Rightarrow> t \<noteq> [])"

definition member :: "'a option \<Rightarrow> error + 'a" where
  "member v =
     (case v of
        None \<Rightarrow> Inl (TypeError (js ''Cannot read properties of undefined''))
      | Some x \<Rightarrow> Inr x)"

definition andThen :: "error + 'a \<Rightarrow> ('a \<Rightarrow> error + 'c) \<Rightarrow> error + 'c" where
  "andThen m f = (case m of Inl err \<Rightarrow> Inl err | Inr x \<Rightarrow> f x)"

datatype jswindow = Window nat

text \<open>
  What the renderer takes from outside the repository: the QR encoder, which may fail;
  the page size and the text metrics of jsPDF, which depend on the document's font state;
  the locale formatting of dates; the clock at each footer; the window that
  \<open>window.open("")\<close> returns, or \<open>null\<close>; the URL that \<open>URL.createObjectURL\<close> makes.
\<close>

record env =
  toDataURL :: "jsstring \<Rightarrow> error + jsstring"
  pageWidth :: rat
  pageHeight :: rat
  getTextWidth :: "pdf \<Rightarrow> jsstring \<Rightarrow> rat"
  splitTextToSize :: "pdf \<Rightarrow> jsstring \<Rightarrow> rat \<Rightarrow> jsstring list"
  toLocaleDateString :: "jsstring \<Rightarrow> jsstring"
  toLocaleString :: "nat \<Rightarrow> jsstring"
  windowOpen :: "jswindow option"
  createObjectURL :: "pdf \<Rightarrow> jsstring"

record pdf_opts =
  preview :: bool
  openPrint :: bool
  returnBlob :: bool

text \<open>
  What the call leaves behind when it returns: the blob handed back, the print view
  written into the opened window, the blob URL opened when no window came, or the saved file.
\<close>

datatype pdf_output =
    ReturnedBlob pdf
  | PrintWindow jswindow jsstring pdf
  | OpenedUrl jsstring pdf
  | SavedFile jsstring pdf

fun outputDoc :: "pdf_output \<Rightarrow> pdf" where
  "outputDoc (ReturnedBlob d) = d"
| "outputDoc (PrintWindow w u d) = d"
| "outputDoc (OpenedUrl u d) = d"
| "outputDoc (SavedFile f d) = d"

abbreviation helvetica :: jsstring where "helvetica \<equiv> js ''helvetica''"
abbreviation bold :: jsstring where "bold \<equiv> js ''bold''"
abbreviation normal :: jsstring where "normal \<equiv> js ''normal''"

section \<open>The renderer, block by block\<close>

text \<open>
  Each block of \<open>generateProjectPDF\<close> maps the document and \<open>yPosition\<close> to the
  document and \<open>yPosition\<close> after it.
\<close>

definition renderHeader :: "env \<Rightarrow> PDFColor \<Rightarrow> Project \<Rightarrow> jsstring \<Rightarrow> pdf \<Rightarrow> pdf" where
  "renderHeader e headerColor project qrCodeDataUrl doc =
     (let nameLines = splitNameForHeader (name project) 20;
          headerY = (if length nameLines > 1 then 18 else 22);
          infoStartY = headerY + of_nat (length nameLines) * 8 + 2;
          qrSize = 38;
          qrX = pageWidth e - 48;
          qrY = 8
      in emits
           ([SetFillColor (r_c headerColor) (g_c headerColor) (b_c headerColor),
             Rect 0 0 (pageWidth e) 55 (js ''F''),
             SetTextColor 255 255 255,
             SetFont helvetica bold,
             SetFontSize (if length nameLines > 1 then 18 else 22)]
            @ map (\<lambda>il. Text [snd il] 15 (headerY + of_nat (fst il) * 8) AlignLeft) (enumerate 0 nameLines)
            @ [SetFontSize 11,
               SetFont helvetica normal,
               Text [js ''Setor: '' @ sector project] 15 infoStartY AlignLeft,
               Text [js ''Codigo: '' @ uniqueCode_p project] 15 (infoStartY + 7) AlignLeft,
               SetFillColor 255 255 255,
               drawRoundedRect (qrX - 2) (qrY - 2) (qrSize + 4) (qrSize + 4) 4,
               AddImage qrCodeDataUrl (js ''PNG'') qrX qrY qrSize qrSize,
               SetTextColor 0 0 0])
           doc)"

definition renderStatus :: "env \<Rightarrow> PDFColor \<Rightarrow> Project \<Rightarrow> pdf \<times> rat \<Rightarrow> pdf \<times> rat" where
  "renderStatus e headerColor project s =
     (let yPosition = snd s;
          d1 = emit (SetFillColor 243 232 255) (fst s);
          statusText = statusLabels (status project);
          statusWidth = getTextWidth e d1 statusText + 12;
          d2 = emits [drawRoundedRect 15 (yPosition - 5) statusWidth 8 2,
                      SetFontSize 9,
                      SetTextColor (r_c headerColor) (g_c headerColor) (b_c headerColor),
                      SetFont helvetica bold,
                      Text [statusText] 21 yPosition AlignLeft] d1
      in (emit (SetTextColor 0 0 0) d2, yPosition + 15))"

definition infoItems :: "env \<Rightarrow> Project \<Rightarrow> (jsstring \<times> jsstring) list" where
  "infoItems e project =
     [(js ''Data de Inicio'', toLocaleDateString e (startDate project)),
      (js ''Data de Termino'',
         (case endDate project of
            None \<Rightarrow> js ''Nao definida''
          | Some d \<Rightarrow> if d \<noteq> [] then toLocaleDateString e d else js ''Nao definida'')),
      (js ''Gerente'', projectManager project),
      (js ''Equipe'',
         (let t = join (js '', '') (take 3 (team_p project))
                    @ (if length (team_p project) > 3 then js ''...'' else [])
          in if t \<noteq> [] then t else js ''Nao definida''))]"

definition renderInfoItem :: "pdf \<times> rat \<Rightarrow> jsstring \<times> jsstring \<Rightarrow> pdf \<times> rat" where
  "renderInfoItem s item =
     (emits [SetFont helvetica bold,
             SetTextColor 80 80 80,
             Text [fst item @ js '':''] 20 (snd s) AlignLeft,
             SetFont helvetica normal,
             SetTextColor 60 60 60,
             Text [snd item] 55 (snd s) AlignLeft] (fst s),
      snd s + 7)"

definition renderInfo :: "env \<Rightarrow> PDFColor \<Rightarrow> Project \<Rightarrow> pdf \<times> rat \<Rightarrow> pdf \<times> rat" where
  "renderInfo e headerColor project s =
     (let yPosition = snd s;
          d1 = emits [SetFillColor 249 250 251,
                      drawRoundedRect 15 (yPosition - 5) (pageWidth e - 30) 45 4,
                      SetFontSize 12,
                      SetFont helvetica bold,
                      SetTextColor (r_c headerColor) (g_c headerColor) (b_c headerColor),
                      Text [js ''Informacoes do Projeto''] 20 (yPosition + 3) AlignLeft,
                      SetFontSize 10,
                      SetTextColor 100 100 100] (fst s);
          s2 = foldl renderInfoItem (d1, yPosition + 12) (infoItems e project)
      in (fst s2, snd s2 + 10))"

definition renderDescription :: "env \<Rightarrow> PDFColor \<Rightarrow> Project \<Rightarrow> pdf \<times> rat \<Rightarrow> pdf \<times> rat" where
  "renderDescription e headerColor project s =
     (if description project \<noteq> []
      then
        (let yPosition = snd s;
             d1 = emit (SetFillColor 249 250 251) (fst s);
             descLines = splitTextToSize e d1 (description project) (pageWidth e - 50);
             descHeight = min (of_nat (length descLines) * 4 + 15) 65;
             d2 = emits [drawRoundedRect 15 (yPosition - 5) (pageWidth e - 30) descHeight 4,
                         SetFontSize 12,
                         SetFont helvetica bold,
                         SetTextColor (r_c headerColor) (g_c headerColor) (b_c headerColor),
                         Text [js ''Descricao''] 20 (yPosition + 3) AlignLeft,
                         SetFontSize 9,
                         SetFont helvetica normal,
                         SetTextColor 80 80 80,
                         Text descLines 20 (yPosition + 10) AlignLeft] d1
         in (d2, yPosition + 10 + of_nat (min (length descLines) 6) * 5 + 15 + 4))
      else s)"

definition renderTechStackItem :: "PDFColor \<Rightarrow> pdf \<times> rat \<Rightarrow> TechStack \<Rightarrow> pdf \<times> rat" where
  "renderTechStackItem headerColor s stack =
     (emits [SetFont helvetica bold,
             SetTextColor (r_c headerColor) (g_c headerColor) (b_c headerColor),
             Text [category stack @ js '':''] 15 (snd s) AlignLeft,
             SetFont helvetica normal,
             SetTextColor 100 100 100,
             Text [join (js '', '') (technologies stack)] 35 (snd s) AlignLeft] (fst s),
      snd s + 7)"

text \<open>The heading of this block has two code units above ASCII in the source: 0xC3, 0xB3.\<close>

definition renderTechStack :: "env \<Rightarrow> PDFColor \<Rightarrow> Project \<Rightarrow> pdf \<times> rat \<Rightarrow> pdf \<times> rat" where
  "renderTechStack e headerColor project s =
     (if length (techStack_p project) > 0
      then
        (let yPosition = snd s;
             d1 = emits [SetFontSize 12,
                         SetFont helvetica bold,
                         SetTextColor (r_c headerColor) (g_c headerColor) (b_c headerColor),
                         Text [js ''Stack Tecnol'' @ [0xC3, 0xB3] @ js ''gica''] 15 yPosition AlignLeft,
                         SetFontSize 10] (fst s);
             s2 = foldl (renderTechStackItem headerColor) (d1, yPosition + 8) (techStack_p project)
         in (fst s2, snd s2 + 5))
      else s)"

text \<open>One milestone of the \<open>forEach\<close>, with its index.\<close>

definition renderMilestone :: "env \<Rightarrow> pdf \<times> rat \<Rightarrow> nat \<times> ProjectMilestone \<Rightarrow> pdf \<times> rat" where
  "renderMilestone e s im =
     (let index = fst im;
          milestone = snd im;
          s1 = (if snd s > 260 then (addPage (fst s), 20) else s);
          yPosition = snd s1;
          checkX = 15;
          checkY = yPosition - 3;
          d2 = (if completed milestone
                then emits [SetFillColor 34 197 94,
                            Circle (checkX + 2) checkY 2 (js ''F'')] (fst s1)
                else emits [SetDrawColor 200 200 200,
                            SetLineWidth (1 / 2),
                            Circle (checkX + 2) checkY 2 (js ''S'')] (fst s1));
          d3 = emits [SetFont helvetica bold,
                      SetTextColor 60 60 60,
                      Text [numToString (int index + 1) @ js ''. '' @ title milestone] 22 yPosition AlignLeft] d2
      in if description_ms milestone \<noteq> []
         then
           (let d4 = emits [SetFont helvetica normal, SetTextColor 120 120 120] d3;
                milestoneLines = splitTextToSize e d4 (description_ms milestone) (pageWidth e - 45)
            in (emit (Text (take 2 milestoneLines) 22 (yPosition + 5) AlignLeft) d4,
                yPosition + 5 + of_nat (min (length milestoneLines) 2) * 4 + 3))
         else (d3, yPosition + 5))"

definition renderMilestones :: "env \<Rightarrow> PDFColor \<Rightarrow> Project \<Rightarrow> pdf \<times> rat \<Rightarrow> pdf \<times> rat" where
  "renderMilestones e headerColor project s =
     (if length (milestones_p project) > 0
      then
        (let s1 = (if snd s > 220 then (addPage (fst s), 20) else s);
             yPosition = snd s1;
             d2 = emits [SetFontSize 12,
                         SetFont helvetica bold,
                         SetTextColor (r_c headerColor) (g_c headerColor) (b_c headerColor),
                         Text [js ''Pontos do Projeto (Milestones)''] 15 yPosition AlignLeft,
                         SetFontSize 9] (fst s1);
             s3 = foldl (renderMilestone e) (d2, yPosition + 10) (enumerate 0 (milestones_p project))
         in (fst s3, snd s3 + 5))
      else s)"

text \<open>A link longer than 50 code units is cut to 50 and an ellipsis.\<close>

definition linkText :: "jsstring \<Rightarrow> jsstring" where
  "linkText url = (if length url > 50 then substring0 url 50 @ js ''...'' else url)"

definition renderLinks :: "env \<Rightarrow> PDFColor \<Rightarrow> Project \<Rightarrow> pdf \<times> rat \<Rightarrow> error + pdf \<times> rat" where
  "renderLinks e headerColor project s =
     (if truthy (repository project) \<or> truthy (documentation project)
      then
        (let s1 = (if snd s > 240 then (addPage (fst s), 20) else s);
             yPosition = snd s1;
             d2 = emits [SetFontSize 12,
                         SetFont helvetica bold,
                         SetTextColor (r_c headerColor) (g_c headerColor) (b_c headerColor),
                         Text [js ''Links''] 15 yPosition AlignLeft,
                         SetFontSize 9] (fst s1)
         in andThen
              (if truthy (repository project)
               then andThen (member (repository project))
                      (\<lambda>repo. Inr (emits [SetFont helvetica bold,
                                           SetTextColor 80 80 80,
                                           Text [js ''Repositorio:''] 15 (yPosition + 8) AlignLeft,
                                           SetFont helvetica normal,
                                           SetTextColor (r_c headerColor) (g_c headerColor) (b_c headerColor),
                                           Text [linkText repo] 42 (yPosition + 8) AlignLeft] d2,
                                    yPosition + 8 + 6))
               else Inr (d2, yPosition + 8))
              (\<lambda>s3. if truthy (documentation project)
                     then andThen (member (documentation project))
                            (\<lambda>docu. Inr (emits [SetFont helvetica bold,
                                                 SetTextColor 80 80 80,
                                                 Text [js ''Documentacao:''] 15 (snd s3) AlignLeft,
                                                 SetFont helvetica normal,
                                                 SetTextColor (r_c headerColor) (g_c headerColor) (b_c headerColor),
                                                 Text [linkText docu] 47 (snd s3) AlignLeft] (fst s3),
                                          snd s3 + 10))
                     else Inr s3))
      else Inr s)"

definition renderNotes :: "env \<Rightarrow> PDFColor \<Rightarrow> Project \<Rightarrow> pdf \<times> rat \<Rightarrow> error + pdf \<times> rat" where
  "renderNotes e headerColor project s =
     (if truthy (notes_p project)
      then
        (let s1 = (if snd s > 230 then (addPage (fst s), 20) else s);
             yPosition = snd s1;
             d2 = emit (SetFillColor 249 250 251) (fst s1)
         in andThen (member (notes_p project))
              (\<lambda>notesText.
                 (let notesLines = splitTextToSize e d2 notesText (pageWidth e - 50);
                      notesHeight = min (of_nat (length notesLines) * 5 + 15) 40
                  in Inr (emits [drawRoundedRect 15 (yPosition - 5) (pageWidth e - 30) notesHeight 4,
                                 SetFontSize 12,
                                 SetFont helvetica bold,
                                 SetTextColor (r_c headerColor) (g_c headerColor) (b_c headerColor),
                                 Text [js ''Observacoes''] 20 (yPosition + 3) AlignLeft,
                                 SetFontSize 9,
                                 SetFont helvetica normal,
                                 SetTextColor 80 80 80,
                                 Text (take 4 notesLines) 20 (yPosition + 10) AlignLeft] d2,
                          yPosition + 10))))
      else Inr s)"

text \<open>A document of one page: one page counted, that page current, every call made on it.\<close>

definition singlePage :: "pdf \<Rightarrow> bool" where
  "singlePage d \<longleftrightarrow> numberOfPages d = 1 \<and> currentPage d = 1 \<and> list_all (\<lambda>x. fst x = 1) (ops d)"

text \<open>The footer loop runs over the pages \<open>1\<close> to \<open>pageCount\<close>.\<close>

definition renderFooterPage :: "env \<Rightarrow> nat \<Rightarrow> pdf \<Rightarrow> nat \<Rightarrow> pdf" where
  "renderFooterPage e pageCount d i =
     emits [SetFontSize 8,
            SetTextColor 150 150 150,
            Text [js ''Gerado em '' @ toLocaleString e i @ js '' | Pagina '' @ numToString (int i)
                    @ js '' de '' @ numToString (int pageCount)]
                 (pageWidth e / 2) (pageHeight e - 10) AlignCenter]
           (setPage i d)"

definition renderFooter :: "env \<Rightarrow> pdf \<Rightarrow> pdf" where
  "renderFooter e d =
     (let pageCount = numberOfPages d
      in foldl (renderFooterPage e pageCount) d [1 ..< pageCount + 1])"

text \<open>All the drawing of \<open>generateProjectPDF\<close>, once the QR image is there.\<close>

definition layoutDocument :: "env \<Rightarrow> PDFColor \<Rightarrow> Project \<Rightarrow> jsstring \<Rightarrow> error + pdf" where
  "layoutDocument e headerColor project qrCodeDataUrl =
     andThen
       (renderLinks e headerColor project
         (renderMilestones e headerColor project
           (renderTechStack e headerColor project
             (renderDescription e headerColor project
               (renderInfo e headerColor project
                 (renderStatus e headerColor project
                   (renderHeader e headerColor project qrCodeDataUrl newDoc, 70)))))))
       (\<lambda>s. andThen (renderNotes e headerColor project s)
              (\<lambda>s'. Inr (renderFooter e (fst s'))))"

text \<open>
  The end of \<open>generateProjectPDF\<close>: the blob is returned, printed or saved. The print
  view is written into the window through \<open>win.document\<close>.
\<close>

definition prepareOutput :: "env \<Rightarrow> Project \<Rightarrow> pdf_opts option \<Rightarrow> pdf \<Rightarrow> error + pdf_output" where
  "prepareOutput e project opts doc =
     (let safeName = substring0 (replaceWhiteSpaceRuns (js ''_'') (name project)) 20;
          pdfBlob = doc
      in if (case opts of None \<Rightarrow> False | Some opt \<Rightarrow> returnBlob opt) then Inr (ReturnedBlob pdfBlob)
         else
           (let blobUrl = createObjectURL e pdfBlob
            in if (case opts of None \<Rightarrow> False | Some opt \<Rightarrow> openPrint opt)
               then (let win = windowOpen e
                     in if win \<noteq> None
                        then andThen (member win) (\<lambda>w. Inr (PrintWindow w blobUrl pdfBlob))
                        else Inr (OpenedUrl blobUrl pdfBlob))
               else Inr (SavedFile (uniqueCode_p project @ js ''-'' @ safeName @ js ''.pdf'') doc)))"

text \<open>
  \<open>generateProjectPDF\<close>: the awaited QR encoding comes before any drawing, and its
  rejection is the rejection of the whole call. Nothing in the function catches.
\<close>

definition headerColorOrDefault :: "PDFColor option \<Rightarrow> PDFColor" where
  "headerColorOrDefault headerColor =
     (case headerColor of None \<Rightarrow> \<lparr>r_c = 139, g_c = 92, b_c = 246\<rparr> | Some c \<Rightarrow> c)"

definition generateProjectPDF :: "env \<Rightarrow> Project \<Rightarrow> PDFColor option \<Rightarrow> pdf_opts option \<Rightarrow> error + pdf_output" where
  "generateProjectPDF e project headerColor opts =
     (let hc = headerColorOrDefault headerColor
      in case toDataURL e (uniqueCode_p project) of
           Inl err \<Rightarrow> Inl err
         | Inr qrCodeDataUrl \<Rightarrow>
             andThen (layoutDocument e hc project qrCodeDataUrl) (prepareOutput e project opts))"

section \<open>Submitting the form\<close>

text \<open>\<open>v || ""\<close> on an optional string.\<close>

definition orEmpty :: "jsstring option \<Rightarrow> jsstring" where
  "orEmpty v = (case v of None \<Rightarrow> [] | Some s \<Rightarrow> s)"

text \<open>The record that \<open>handleFormSubmit\<close> builds; \<open>now\<close> is \<open>new Date().toISOString()\<close>.\<close>

definition newProject :: "view_state \<Rightarrow> ProjectFormValues \<Rightarrow> jsstring \<Rightarrow> Project" where
  "newProject st data now =
     \<lparr>id_p = uniqueCode st,
      uniqueCode_p = uniqueCode st,
      name = name_f data,
      description = orEmpty (description_f data),
      sector = sector_f data,
      status = status_f data,
      startDate = startDate_f data,
      endDate = (case endDate_f data of None \<Rightarrow> None | Some d \<Rightarrow> if d \<noteq> [] then Some d else None),
      projectManager = orEmpty (projectManager_f data),
      team_p = team st,
      milestones_p = milestones st,
      techStack_p = techStack st,
      repository = Some (orEmpty (repository_f data)),
      documentation = Some (orEmpty (documentation_f data)),
      notes_p = Some (orEmpty (notes_f data)),
      createdAt = now,
      updatedAt = now\<rparr>"

definition handleFormSubmit :: "env \<Rightarrow> jsstring \<Rightarrow> ProjectFormValues \<Rightarrow> view_state \<Rightarrow> error + view_state" where
  "handleFormSubmit e now data st =
     (case generateProjectPDF e (newProject st data now) (Some (selectedColor st))
             (Some \<lparr>preview = False, openPrint = False, returnBlob = True\<rparr>) of
        Inl err \<Rightarrow> Inl err
      | Inr (ReturnedBlob blob) \<Rightarrow>
          (let live = (case pdfPreviewUrl st of
                         None \<Rightarrow> objectURLs st
                       | Some u \<Rightarrow> if u \<noteq> [] then removeAll u (objectURLs st) else objectURLs st);
               url = createObjectURL e blob
           in Inr (st\<lparr>pdfPreviewUrl := Some url, showPreview := True, objectURLs := live @ [url]\<rparr>))
      | Inr _ \<Rightarrow> Inr st)"

section \<open>Sequential milestone identifiers\<close>

definition idNumber :: "ProjectMilestone \<Rightarrow> int option" where
  "idNumber m = parseInt (id_ms m)"

text \<open>
  The identifiers all read as numbers, these numbers increase strictly along the list, and
  no identifier occurs twice.
\<close>

definition sequentialIds :: "ProjectMilestone list \<Rightarrow> bool" where
  "sequentialIds ms \<longleftrightarrow>
     (\<forall>m \<in> set ms. idNumber m \<noteq> None) \<and>
     sorted_wrt (\<lambda>a c. the (idNumber a) < the (idNumber c)) ms \<and>
     distinct (map id_ms ms)"

text \<open>
  What the list keeps under add and remove: every identifier is the decimal string of a
  natural number, and the numbers increase strictly along the list.
\<close>

definition canonicalIds :: "ProjectMilestone list \<Rightarrow> bool" where
  "canonicalIds ms \<longleftrightarrow>
     (\<forall>m \<in> set ms. \<exists>n. id_ms m = numToString (int n)) \<and>
     sorted_wrt (\<lambda>a c. the (idNumber a) < the (idNumber c)) ms"

section \<open>Example values\<close>

text \<open>
  A view with a member, two technology groups and pending entries; an environment whose QR
  encoder rejects the empty text, as the encoder of the source does, and whose text metrics
  are simple; a finalized record with none of the optional fields, as \<open>handleFormSubmit\<close>
  builds it from an empty form; the same record with a repository, a documentation link
  and notes.
\<close>

definition exampleState :: view_state where
  "exampleState =
     \<lparr>uniqueCode = js ''PRJ-2025-7-K3X9QA'',
      team = [js ''Ana''],
      milestones = [],
      techStack = [\<lparr>category = js ''Frontend'', technologies = [js ''React'', js ''Vite'']\<rparr>,
                   \<lparr>category = js ''Backend'', technologies = [js ''Node'']\<rparr>],
      showPreview = True,
      selectedColor = \<lparr>r_c = 139, g_c = 92, b_c = 246\<rparr>,
      newTeamMember = js '' Bia '',
      newMilestone = \<lparr>title_nm = js ''Kickoff'', description_nm = []\<rparr>,
      newTech = \<lparr>category_nt = js ''Database'', technology = js '' Postgres''\<rparr>,
      qrCode = [],
      pdfPreviewUrl = None,
      objectURLs = []\<rparr>"

definition exampleEnv :: env where
  "exampleEnv =
     \<lparr>toDataURL = (\<lambda>t. if t = [] then Inl (QRCodeError (js ''No input text''))
                        else Inr (js ''data:image/png;base64,'' @ t)),
      pageWidth = 210,
      pageHeight = 297,
      getTextWidth = (\<lambda>d t. of_nat (length t) * 2),
      splitTextToSize = (\<lambda>d t w. [t]),
      toLocaleDateString = (\<lambda>t. t),
      toLocaleString = (\<lambda>i. js ''03/11/2026, 10:00:00''),
      windowOpen = Some (Window 1),
      createObjectURL = (\<lambda>d. js ''blob:preview'')\<rparr>"

definition bareProject :: Project where
  "bareProject =
     \<lparr>id_p = js ''PRJ-2025-7-K3X9QA'',
      uniqueCode_p = js ''PRJ-2025-7-K3X9QA'',
      name = js ''Portal'',
      description = [],
      sector = js ''TI'',
      status = planning,
      startDate = js ''2025-07-01'',
      endDate = None,
      projectManager = [],
      team_p = [],
      milestones_p = [],
      techStack_p = [],
      repository = Some [],
      documentation = Some [],
      notes_p = Some [],
      createdAt = js ''2025-07-01T12:00:00.000Z'',
      updatedAt = js ''2025-07-01T12:00:00.000Z''\<rparr>"

definition linkedProject :: Project where
  "linkedProject =
     bareProject\<lparr>repository := Some (js ''https://git.example.org/portal''),
                 documentation := Some (js ''https://docs.example.org/portal''),
                 notes_p := Some (js ''Entrega em fases'')\<rparr>"

definition printOpts :: pdf_opts where
  "printOpts = \<lparr>preview = False, openPrint = True, returnBlob = False\<rparr>"

section \<open>Properties of the header name\<close>

lemma truncateName_idem: "truncateName (truncateName n 30) 30 = truncateName n 30"
  by (simp add: truncateName_def substring0_def js_def)

text \<open>
  C2. A name longer than 30 code units is cut to its first 30 followed by three dots, a
  shorter one is returned as it is, and \<open>splitNameForHeader\<close> wraps the truncated name:
  its result is a function of \<open>truncateName n 30\<close> alone.
\<close>

theorem truncateName_spec:
  "(length n > 30 \<longrightarrow> truncateName n 30 = take 30 n @ js ''...'') \<and>
   (length n \<le> 30 \<longrightarrow> truncateName n 30 = n) \<and>
   splitNameForHeader n m =
     (if length (truncateName n 30) \<le> m then [truncateName n 30]
      else wrapWords (truncateName n 30) m) \<and>
   splitNameForHeader n m = splitNameForHeader (truncateName n 30) m"
  by (simp add: splitNameForHeader_def truncateName_idem Let_def)
     (simp add: truncateName_def substring0_def)

theorem truncateName_spec_witness:
  "length (js ''Plataforma de Monitoramento de Obras 001'') = 40
   \<and> truncateName (js ''Plataforma de Monitoramento de Obras 001'') 30
     = js ''Plataforma de Monitoramento de...''
   \<and> splitNameForHeader (js ''Plataforma de Monitoramento de Obras 001'') 20
     = [js ''Plataforma de'', js ''Monitoramento de...'']
   \<and> truncateName (js ''Portal'') 30 = js ''Portal''"
  using truncateName_spec [of "js ''Plataforma de Monitoramento de Obras 001''" 20]
        truncateName_spec [of "js ''Portal''" 20]
  by (simp add: js_def wrapWords_def wrapStep_def trim_def isWhiteSpace_def)

lemma splitNameForHeader_within_budget:
  "length (truncateName n 30) \<le> m \<Longrightarrow> splitNameForHeader n m = [truncateName n 30]"
  by (simp add: splitNameForHeader_def)

text \<open>
  C3. A name of 27 code units without a space is within the 30 of the truncation and over the
  20 of a line; the loop has nowhere to break it and returns it as one line of 27.
\<close>

theorem splitNameForHeader_long_word:
  "splitNameForHeader (js ''Internacionalizacao-Digital'') 20 = [js ''Internacionalizacao-Digital'']
   \<and> length (js ''Internacionalizacao-Digital'') = 27"
  by (simp add: splitNameForHeader_def truncateName_def js_def wrapWords_def wrapStep_def
        trim_def isWhiteSpace_def)

section \<open>Properties of the team list\<close>

lemma filterIndex_append_last:
  "filterIndex (\<lambda>i. i \<noteq> length xs) (xs @ [x]) = xs"
proof -
  have "filter (\<lambda>ix. fst ix \<noteq> length xs) (enumerate 0 xs) = enumerate 0 xs"
    by (rule filter_True) (auto simp: in_set_enumerate_eq)
  then show ?thesis
    by (simp add: filterIndex_def enumerate_append_eq)
qed

text \<open>
  C6. On a view whose team is \<open>t\<close> and whose pending member \<open>s\<close> does not trim to the empty
  string, adding the member appends \<open>trim s\<close>, so that the new member is at index
  \<open>length t\<close> of a team of \<open>length t + 1\<close> members, and removing the member at index
  \<open>length t\<close> then gives the team \<open>t\<close> again.
\<close>

theorem addTeamMember_removeTeamMember:
  "trim s \<noteq> [] \<Longrightarrow>
   team (addTeamMember (st\<lparr>team := t, newTeamMember := s\<rparr>)) = t @ [trim s]
   \<and> length (team (addTeamMember (st\<lparr>team := t, newTeamMember := s\<rparr>))) = length t + 1
   \<and> team (addTeamMember (st\<lparr>team := t, newTeamMember := s\<rparr>)) ! length t = trim s
   \<and> team (removeTeamMember (int (length t))
             (addTeamMember (st\<lparr>team := t, newTeamMember := s\<rparr>))) = t"
  by (simp add: addTeamMember_def removeTeamMember_def filterIndex_append_last)

text \<open>
  C8. With a pending member that trims to the empty string \<open>addTeamMember\<close> returns the
  view as it was, and so does \<open>addMilestone\<close> with a pending title that trims to the empty
  string.
\<close>

theorem add_blank_noop:
  "(trim (newTeamMember st) = [] \<longrightarrow> addTeamMember st = st) \<and>
   (trim (title_nm (newMilestone st)) = [] \<longrightarrow> addMilestone st = st)"
  by (simp add: addTeamMember_def addMilestone_def)

section \<open>Properties of the technology groups\<close>

lemma find_none_append:
  "\<forall>x \<in> set xs. \<not> P x \<Longrightarrow> find P (xs @ ys) = find P ys"
  by (induction xs) simp_all

lemma addTechnology_existing:
  assumes "techStack st = xs @ [grp]" and "\<forall>s \<in> set xs. category s \<noteq> c" and "category grp = c"
    and "category_nt (newTech st) = c" and "trim (technology (newTech st)) \<noteq> []"
  shows "techStack (addTechnology st)
           = xs @ [grp\<lparr>technologies := technologies grp @ [trim (technology (newTech st))]\<rparr>]"
proof -
  have found: "find (\<lambda>s. category s = c) (techStack st) = Some grp"
    using assms(1,2,3) by (simp add: find_none_append)
  have same: "map (\<lambda>s. if category s = c
                        then s\<lparr>technologies := technologies s @ [trim (technology (newTech st))]\<rparr>
                        else s) xs = xs"
    using assms(2) by (simp add: map_idI)
  show ?thesis
    using assms(1,3,4,5) found same by (simp add: addTechnology_def)
qed

text \<open>
  C5. When no group of the list has category \<open>c\<close>, adding a technology \<open>s1\<close> that is not
  blank under category \<open>c\<close> appends the group of \<open>c\<close> with the single entry \<open>trim s1\<close>, the
  only group of \<open>c\<close>; typing a second technology \<open>s2\<close> and adding it leaves that one group
  of \<open>c\<close>, now with \<open>trim s1\<close> and \<open>trim s2\<close> in this order.
\<close>

theorem addTechnology_new_category:
  assumes "\<forall>s \<in> set (techStack st). category s \<noteq> c"
    and "category_nt (newTech st) = c"
    and "technology (newTech st) = s1"
    and "trim s1 \<noteq> []" and "trim s2 \<noteq> []"
  shows "techStack (addTechnology st) = techStack st @ [\<lparr>category = c, technologies = [trim s1]\<rparr>]
       \<and> filter (\<lambda>s. category s = c) (techStack (addTechnology st))
           = [\<lparr>category = c, technologies = [trim s1]\<rparr>]
       \<and> techStack (addTechnology (setNewTechnology s2 (addTechnology st)))
           = techStack st @ [\<lparr>category = c, technologies = [trim s1, trim s2]\<rparr>]
       \<and> filter (\<lambda>s. category s = c) (techStack (addTechnology (setNewTechnology s2 (addTechnology st))))
           = [\<lparr>category = c, technologies = [trim s1, trim s2]\<rparr>]"
proof -
  let ?g = "\<lparr>category = c, technologies = [trim s1]\<rparr>"
  let ?st' = "setNewTechnology s2 (addTechnology st)"
  have none: "find (\<lambda>s. category s = c) (techStack st) = None"
    using assms(1) by (simp add: find_None_iff)
  have first: "techStack (addTechnology st) = techStack st @ [?g]"
    using assms(2,3,4) none by (simp add: addTechnology_def)
  have cat1: "category_nt (newTech (addTechnology st)) = c"
    using assms(2,3,4) none by (simp add: addTechnology_def)
  have nofilter: "filter (\<lambda>s. category s = c) (techStack st) = []"
    using assms(1) by (simp add: filter_empty_conv)
  have a1: "techStack ?st' = techStack st @ [?g]"
    using first by (simp add: setNewTechnology_def)
  have a2: "category_nt (newTech ?st') = c"
    using cat1 by (simp add: setNewTechnology_def)
  have a3: "trim (technology (newTech ?st')) \<noteq> []"
    using assms(5) by (simp add: setNewTechnology_def)
  have a4: "technology (newTech ?st') = s2"
    by (simp add: setNewTechnology_def)
  have second: "techStack (addTechnology ?st')
                  = techStack st @ [\<lparr>category = c, technologies = [trim s1, trim s2]\<rparr>]"
    using addTechnology_existing [OF a1 assms(1) _ a2 a3] by (simp add: a4)
  show ?thesis
    using first second nofilter by simp
qed

lemma removeTechnology_append:
  "techStack (removeTechnology cat tech (st\<lparr>techStack := xs @ ys\<rparr>))
     = techStack (removeTechnology cat tech (st\<lparr>techStack := xs\<rparr>))
       @ techStack (removeTechnology cat tech (st\<lparr>techStack := ys\<rparr>))"
  by (simp add: removeTechnology_def)

lemma removeTechnology_other_groups:
  "\<forall>s \<in> set xs. category s \<noteq> cat \<and> technologies s \<noteq> [] \<Longrightarrow>
   techStack (removeTechnology cat tech (st\<lparr>techStack := xs\<rparr>)) = xs"
  by (induction xs) (simp_all add: removeTechnology_def)

lemma filter_only: "filter (\<lambda>t. t \<noteq> tech) ts = [] \<longleftrightarrow> set ts \<subseteq> {tech}"
  by (auto simp: filter_empty_conv)

text \<open>
  C4. For a group \<open>grp\<close> anywhere in the list, \<open>removeTechnology (category grp) tech\<close>
  puts nothing in its place when \<open>tech\<close> is its only technology, and otherwise the group
  with its other technologies in their order; the groups before and after it go through
  the same removal, which returns them as they are when none of them has the category of
  \<open>grp\<close> and none is empty.
\<close>

theorem removeTechnology_group:
  assumes "techStack st = pre @ grp # post"
  shows "techStack (removeTechnology (category grp) tech st)
           = techStack (removeTechnology (category grp) tech (st\<lparr>techStack := pre\<rparr>))
             @ (if set (technologies grp) \<subseteq> {tech} then []
                else [grp\<lparr>technologies := filter (\<lambda>t. t \<noteq> tech) (technologies grp)\<rparr>])
             @ techStack (removeTechnology (category grp) tech (st\<lparr>techStack := post\<rparr>))
       \<and> ((\<forall>s \<in> set (pre @ post). category s \<noteq> category grp \<and> technologies s \<noteq> []) \<longrightarrow>
            techStack (removeTechnology (category grp) tech st)
              = pre @ (if set (technologies grp) \<subseteq> {tech} then []
                       else [grp\<lparr>technologies := filter (\<lambda>t. t \<noteq> tech) (technologies grp)\<rparr>]) @ post)"
proof -
  have mid: "techStack (removeTechnology (category grp) tech (st\<lparr>techStack := [grp]\<rparr>))
              = (if set (technologies grp) \<subseteq> {tech} then []
                 else [grp\<lparr>technologies := filter (\<lambda>t. t \<noteq> tech) (technologies grp)\<rparr>])"
    using filter_only [of tech "technologies grp"] by (simp add: removeTechnology_def)
  have whole: "removeTechnology (category grp) tech st
                 = removeTechnology (category grp) tech (st\<lparr>techStack := pre @ ([grp] @ post)\<rparr>)"
    using assms by (simp add: removeTechnology_def)
  have gen: "techStack (removeTechnology (category grp) tech st)
           = techStack (removeTechnology (category grp) tech (st\<lparr>techStack := pre\<rparr>))
             @ (if set (technologies grp) \<subseteq> {tech} then []
                else [grp\<lparr>technologies := filter (\<lambda>t. t \<noteq> tech) (technologies grp)\<rparr>])
             @ techStack (removeTechnology (category grp) tech (st\<lparr>techStack := post\<rparr>))"
    unfolding whole removeTechnology_append mid ..
  show ?thesis
  proof (intro conjI impI)
    show "techStack (removeTechnology (category grp) tech st)
           = techStack (removeTechnology (category grp) tech (st\<lparr>techStack := pre\<rparr>))
             @ (if set (technologies grp) \<subseteq> {tech} then []
                else [grp\<lparr>technologies := filter (\<lambda>t. t \<noteq> tech) (technologies grp)\<rparr>])
             @ techStack (removeTechnology (category grp) tech (st\<lparr>techStack := post\<rparr>))"
      by (rule gen)
  next
    assume wf: "\<forall>s \<in> set (pre @ post). category s \<noteq> category grp \<and> technologies s \<noteq> []"
    have "techStack (removeTechnology (category grp) tech (st\<lparr>techStack := pre\<rparr>)) = pre"
      using wf by (intro removeTechnology_other_groups) simp
    moreover have "techStack (removeTechnology (category grp) tech (st\<lparr>techStack := post\<rparr>)) = post"
      using wf by (intro removeTechnology_other_groups) simp
    ultimately show "techStack (removeTechnology (category grp) tech st)
              = pre @ (if set (technologies grp) \<subseteq> {tech} then []
                       else [grp\<lparr>technologies := filter (\<lambda>t. t \<noteq> tech) (technologies grp)\<rparr>]) @ post"
      using gen by simp
  qed
qed

section \<open>Properties of the renderer\<close>

lemma singlePage_emit: "singlePage d \<Longrightarrow> singlePage (emit c d)"
  by (simp add: singlePage_def emit_def)

lemma singlePage_emits: "singlePage d \<Longrightarrow> singlePage (emits cs d)"
  unfolding emits_def by (induction cs arbitrary: d) (simp_all add: singlePage_emit)

lemma singlePage_newDoc: "singlePage newDoc"
  by (simp add: singlePage_def newDoc_def)

lemma singlePage_renderHeader: "singlePage d \<Longrightarrow> singlePage (renderHeader e hc p qr d)"
  unfolding renderHeader_def Let_def by (rule singlePage_emits)

lemma singlePage_renderStatus: "singlePage (fst s) \<Longrightarrow> singlePage (fst (renderStatus e hc p s))"
  unfolding renderStatus_def Let_def by (simp add: singlePage_emits singlePage_emit)

lemma singlePage_renderInfoItem: "singlePage (fst s) \<Longrightarrow> singlePage (fst (renderInfoItem s item))"
  unfolding renderInfoItem_def by (simp add: singlePage_emits)

lemma singlePage_renderInfoItems:
  "singlePage (fst s) \<Longrightarrow> singlePage (fst (foldl renderInfoItem s items))"
  by (induction items arbitrary: s) (simp_all add: singlePage_renderInfoItem)

lemma singlePage_renderInfo: "singlePage (fst s) \<Longrightarrow> singlePage (fst (renderInfo e hc p s))"
  unfolding renderInfo_def Let_def by (simp add: singlePage_renderInfoItems singlePage_emits)

lemma singlePage_renderFooter: "singlePage d \<Longrightarrow> singlePage (renderFooter e d)"
proof -
  assume h: "singlePage d"
  then have n: "numberOfPages d = 1" by (simp add: singlePage_def)
  have "singlePage (setPage 1 d)" using h by (simp add: singlePage_def setPage_def)
  then have "singlePage (renderFooterPage e 1 d 1)"
    unfolding renderFooterPage_def by (rule singlePage_emits)
  then show ?thesis by (simp add: renderFooter_def n)
qed

lemma member_truthy: "truthy v \<Longrightarrow> \<exists>t. member v = Inr t"
  by (cases v) (simp_all add: truthy_def member_def)

lemma renderLinks_returns: "\<exists>s'. renderLinks e hc p s = Inr s'"
proof -
  have r: "\<exists>t. member (repository p) = Inr t" if "truthy (repository p)"
    using that by (rule member_truthy)
  have d: "\<exists>t. member (documentation p) = Inr t" if "truthy (documentation p)"
    using that by (rule member_truthy)
  show ?thesis
    unfolding renderLinks_def Let_def
    using r d by (auto simp: andThen_def)
qed

lemma renderNotes_returns: "\<exists>s'. renderNotes e hc p s = Inr s'"
proof -
  have n: "\<exists>t. member (notes_p p) = Inr t" if "truthy (notes_p p)"
    using that by (rule member_truthy)
  show ?thesis
    unfolding renderNotes_def Let_def
    using n by (auto simp: andThen_def)
qed

lemma layoutDocument_returns: "\<exists>d. layoutDocument e hc p qr = Inr d"
proof -
  obtain s1 where s1: "renderLinks e hc p
         (renderMilestones e hc p (renderTechStack e hc p (renderDescription e hc p
            (renderInfo e hc p (renderStatus e hc p (renderHeader e hc p qr newDoc, 70)))))) = Inr s1"
    using renderLinks_returns by blast
  obtain s2 where s2: "renderNotes e hc p s1 = Inr s2"
    using renderNotes_returns by blast
  show ?thesis
    by (simp add: layoutDocument_def andThen_def s1 s2)
qed

lemma prepareOutput_returns: "\<exists>out. prepareOutput e p opts d = Inr out \<and> outputDoc out = d"
  unfolding prepareOutput_def Let_def
  by (cases "windowOpen e") (simp_all add: andThen_def member_def)

text \<open>
  C1. For a record with an empty description, no technology group, no milestone, no
  repository or documentation link and no notes (each of these three empty or undefined),
  each of the five optional blocks leaves the document and the cursor as they are, without
  throwing; when the QR encoder gives its image, the drawing gives the document made of the
  header, the status, the project information and the footer only, the call returns,
  without throwing, an output that holds this document, and this document has one page,
  with every drawing call on page 1.
\<close>

theorem generateProjectPDF_no_optional_fields:
  assumes "description project = []" and "techStack_p project = []"
    and "milestones_p project = []" and "\<not> truthy (repository project)"
    and "\<not> truthy (documentation project)" and "\<not> truthy (notes_p project)"
    and "toDataURL e (uniqueCode_p project) = Inr qr"
  shows "renderDescription e hc project s = s
       \<and> renderTechStack e hc project s = s
       \<and> renderMilestones e hc project s = s
       \<and> renderLinks e hc project s = Inr s
       \<and> renderNotes e hc project s = Inr s
       \<and> layoutDocument e (headerColorOrDefault headerColor) project qr =
           Inr (renderFooter e (fst (renderInfo e (headerColorOrDefault headerColor) project
                  (renderStatus e (headerColorOrDefault headerColor) project
                     (renderHeader e (headerColorOrDefault headerColor) project qr newDoc, 70)))))
       \<and> generateProjectPDF e project headerColor opts =
           prepareOutput e project opts
             (renderFooter e (fst (renderInfo e (headerColorOrDefault headerColor) project
                (renderStatus e (headerColorOrDefault headerColor) project
                   (renderHeader e (headerColorOrDefault headerColor) project qr newDoc, 70)))))
       \<and> (\<exists>out. generateProjectPDF e project headerColor opts = Inr out
                \<and> outputDoc out =
                    renderFooter e (fst (renderInfo e (headerColorOrDefault headerColor) project
                      (renderStatus e (headerColorOrDefault headerColor) project
                         (renderHeader e (headerColorOrDefault headerColor) project qr newDoc, 70)))))
       \<and> singlePage
           (renderFooter e (fst (renderInfo e (headerColorOrDefault headerColor) project
              (renderStatus e (headerColorOrDefault headerColor) project
                 (renderHeader e (headerColorOrDefault headerColor) project qr newDoc, 70)))))"
proof -
  let ?c = "headerColorOrDefault headerColor"
  let ?D = "renderFooter e (fst (renderInfo e ?c project
              (renderStatus e ?c project (renderHeader e ?c project qr newDoc, 70))))"
  have sec: "\<And>c s. renderDescription e c project s = s" "\<And>c s. renderTechStack e c project s = s"
    "\<And>c s. renderMilestones e c project s = s" "\<And>c s. renderLinks e c project s = Inr s"
    "\<And>c s. renderNotes e c project s = Inr s"
    using assms
    by (simp_all add: renderDescription_def renderTechStack_def renderMilestones_def
          renderLinks_def renderNotes_def)
  have lay: "layoutDocument e ?c project qr = Inr ?D"
    by (simp add: layoutDocument_def sec andThen_def)
  have gen: "generateProjectPDF e project headerColor opts = prepareOutput e project opts ?D"
    using assms(7) by (simp add: generateProjectPDF_def lay andThen_def)
  obtain out where out: "prepareOutput e project opts ?D = Inr out" "outputDoc out = ?D"
    using prepareOutput_returns by blast
  have "singlePage (fst (renderHeader e ?c project qr newDoc, 70::rat))"
    by (simp add: singlePage_renderHeader singlePage_newDoc)
  then have one: "singlePage ?D"
    by (intro singlePage_renderFooter singlePage_renderInfo singlePage_renderStatus)
  have ex: "\<exists>out. generateProjectPDF e project headerColor opts = Inr out \<and> outputDoc out = ?D"
    using gen out by auto
  show ?thesis
    using sec lay gen ex one by simp
qed

text \<open>
  C9. The call can throw in two ways, the rejection of the QR encoder and a \<open>TypeError\<close>
  on an undefined or null value, and only the first happens: for every record, colour and
  options the call throws exactly when the encoder rejects, with the encoder's error and
  hence no output of any kind; when the encoder gives its image, the drawing and the output
  step both return without throwing, and the call returns the output, which holds the
  document drawn.
\<close>

theorem generateProjectPDF_failure:
  "(generateProjectPDF e project headerColor opts = Inl err
      \<longleftrightarrow> toDataURL e (uniqueCode_p project) = Inl err)
   \<and> (toDataURL e (uniqueCode_p project) = Inr qr \<longrightarrow>
        (\<exists>d out. layoutDocument e (headerColorOrDefault headerColor) project qr = Inr d
                \<and> prepareOutput e project opts d = Inr out
                \<and> outputDoc out = d
                \<and> generateProjectPDF e project headerColor opts = Inr out))"
proof -
  have ok: "\<exists>d out. layoutDocument e (headerColorOrDefault headerColor) project q = Inr d
                \<and> prepareOutput e project opts d = Inr out
                \<and> outputDoc out = d
                \<and> generateProjectPDF e project headerColor opts = Inr out"
    if q: "toDataURL e (uniqueCode_p project) = Inr q" for q
  proof -
    obtain d where d: "layoutDocument e (headerColorOrDefault headerColor) project q = Inr d"
      using layoutDocument_returns by blast
    obtain out where out: "prepareOutput e project opts d = Inr out" "outputDoc out = d"
      using prepareOutput_returns by blast
    have "generateProjectPDF e project headerColor opts = Inr out"
      using q d out by (simp add: generateProjectPDF_def andThen_def)
    then show ?thesis using d out by blast
  qed
  have fails: "generateProjectPDF e project headerColor opts = Inl x"
    if "toDataURL e (uniqueCode_p project) = Inl x" for x
    using that by (simp add: generateProjectPDF_def)
  have iff: "generateProjectPDF e project headerColor opts = Inl err
               \<longleftrightarrow> toDataURL e (uniqueCode_p project) = Inl err"
  proof (cases "toDataURL e (uniqueCode_p project)")
    case (Inl x)
    then show ?thesis using fails [OF Inl] by auto
  next
    case (Inr q)
    then show ?thesis using ok [OF Inr] by auto
  qed
  show ?thesis using iff ok by blast
qed

section \<open>Properties of the submitted record\<close>

text \<open>
  C10. In the record that \<open>handleFormSubmit\<close> builds, \<open>id\<close> and \<open>uniqueCode\<close> are both the
  unique code of the view, and \<open>createdAt\<close> and \<open>updatedAt\<close> are both the time stamp taken
  at the submit.
\<close>

theorem newProject_consistent:
  "id_p (newProject st data now) = uniqueCode st
   \<and> uniqueCode_p (newProject st data now) = uniqueCode st
   \<and> id_p (newProject st data now) = uniqueCode_p (newProject st data now)
   \<and> createdAt (newProject st data now) = now
   \<and> updatedAt (newProject st data now) = now
   \<and> createdAt (newProject st data now) = updatedAt (newProject st data now)"
  by (simp add: newProject_def)

section \<open>Properties of the milestone identifiers\<close>

lemma digit_cases: "(d::nat) < 10 \<Longrightarrow> d = 0 \<or> d = 1 \<or> d = 2 \<or> d = 3 \<or> d = 4 \<or> d = 5 \<or> d = 6 \<or> d = 7 \<or> d = 8 \<or> d = 9"
  by arith

lemma digitValue_decimal: "d < 10 \<Longrightarrow> digitValue 10 (0x30 + of_nat d) = Some d"
  by (drule digit_cases) (auto simp: digitValue_def)

lemma decimal_not_special:
  "d < 10 \<Longrightarrow> \<not> isWhiteSpace (0x30 + of_nat d) \<and> (0x30 + of_nat d :: 16 word) \<noteq> 0x2D \<and> (0x30 + of_nat d :: 16 word) \<noteq> 0x2B"
  by (drule digit_cases) (auto simp: isWhiteSpace_def)

lemma decimal_zero: "d < 10 \<Longrightarrow> (0x30 + of_nat d :: 16 word) = 0x30 \<longleftrightarrow> d = 0"
  by (drule digit_cases) auto

lemma digits_all_decimal: "\<forall>c \<in> set (digits n). digitValue 10 c \<noteq> None"
proof (induction n rule: digits.induct)
  case (1 n)
  show ?case
  proof (cases "n < 10")
    case True
    then show ?thesis by (subst digits.simps) (simp add: digitValue_decimal)
  next
    case False
    then have "\<forall>c \<in> set (digits (n div 10)). digitValue 10 c \<noteq> None" using 1 by simp
    then show ?thesis using False by (subst digits.simps) (simp add: digitValue_decimal)
  qed
qed

lemma digits_value:
  "foldl (\<lambda>acc c. acc * 10 + the (digitValue 10 c)) 0 (digits n) = n"
proof (induction n rule: digits.induct)
  case (1 n)
  show ?case
  proof (cases "n < 10")
    case True
    then show ?thesis by (subst digits.simps) (simp add: digitValue_decimal)
  next
    case False
    then have "foldl (\<lambda>acc c. acc * 10 + the (digitValue 10 c)) 0 (digits (n div 10)) = n div 10"
      using 1 by simp
    then show ?thesis using False by (subst digits.simps) (simp add: digitValue_decimal)
  qed
qed

lemma digits_head: "\<exists>d ds. digits n = (0x30 + of_nat d) # ds \<and> d < 10 \<and> (d = 0 \<longrightarrow> n = 0 \<and> ds = [])"
proof (induction n rule: digits.induct)
  case (1 n)
  show ?case
  proof (cases "n < 10")
    case True
    then show ?thesis by (subst digits.simps) auto
  next
    case False
    then obtain d ds where h: "digits (n div 10) = (0x30 + of_nat d) # ds" "d < 10" "d = 0 \<longrightarrow> n div 10 = 0 \<and> ds = []"
      using 1 by blast
    have "d \<noteq> 0" using h(3) False by auto
    then show ?thesis using False h by (subst digits.simps) auto
  qed
qed

lemma parseInt_numToString: "parseInt (numToString (int n)) = Some (int n)"
proof -
  obtain d ds where h: "digits n = (0x30 + of_nat d) # ds" "d < 10" "d = 0 \<longrightarrow> n = 0 \<and> ds = []"
    using digits_head by blast
  let ?c = "0x30 + of_nat d :: 16 word"
  have ns: "\<not> isWhiteSpace ?c" "?c \<noteq> 0x2D" "?c \<noteq> 0x2B"
    using decimal_not_special [OF h(2)] by auto
  have nohex: "\<not> (case ?c # ds of a # b # _ \<Rightarrow> a = 0x30 \<and> (b = 0x78 \<or> b = 0x58) | _ \<Rightarrow> False)"
    using h(3) decimal_zero [OF h(2)] by (cases ds) auto
  have tw: "takeWhile (\<lambda>c. digitValue 10 c \<noteq> None) (digits n) = digits n"
    using digits_all_decimal [of n] by simp
  have "parseInt (digits n) = Some (int n)"
    unfolding parseInt_def Let_def
    using ns nohex tw digits_value [of n] by (simp add: h(1))
  then show ?thesis by (simp add: numToString_def)
qed

lemma one_is_numToString: "js ''1'' = numToString 1"
  by (simp add: js_def numToString_def digits.simps)

lemma idNumber_canonical: "id_ms m = numToString (int n) \<Longrightarrow> idNumber m = Some (int n)"
  by (simp add: idNumber_def parseInt_numToString)

lemma increasing_distinct:
  "sorted_wrt (\<lambda>a c. the (idNumber a) < the (idNumber c)) ms \<Longrightarrow> distinct (map id_ms ms)"
proof (induction ms)
  case Nil
  then show ?case by simp
next
  case (Cons m ms)
  have "id_ms m \<noteq> id_ms x" if "x \<in> set ms" for x
  proof
    assume "id_ms m = id_ms x"
    then have "idNumber m = idNumber x" by (simp add: idNumber_def)
    moreover have "the (idNumber m) < the (idNumber x)" using Cons.prems that by simp
    ultimately show False by simp
  qed
  then show ?case using Cons by auto
qed

lemma canonical_sequential:
  assumes "canonicalIds ms"
  shows "sequentialIds ms"
proof -
  have "\<forall>m \<in> set ms. idNumber m \<noteq> None"
    using assms idNumber_canonical unfolding canonicalIds_def by fastforce
  then show ?thesis
    using assms increasing_distinct by (simp add: sequentialIds_def canonicalIds_def)
qed

lemma addMilestone_ids:
  assumes "trim (title_nm (newMilestone st)) \<noteq> []"
    and "\<forall>m \<in> set (milestones st). \<exists>n. id_ms m = numToString (int n)"
  shows "\<exists>m. milestones (addMilestone st) = milestones st @ [m]
           \<and> id_ms m = (if milestones st = [] then js ''1''
                        else numToString (the (idNumber (last (milestones st))) + 1))
           \<and> (\<exists>k. id_ms m = numToString (int k)
                  \<and> int k = (if milestones st = [] then 1
                             else the (idNumber (last (milestones st))) + 1))"
proof (cases "milestones st = []")
  case True
  have "js ''1'' = numToString (int 1)" by (simp add: one_is_numToString)
  then show ?thesis
    using assms(1) True by (auto simp add: addMilestone_def simp del: of_nat_1 One_nat_def intro!: exI [of _ 1])
next
  case False
  then obtain n where n: "id_ms (last (milestones st)) = numToString (int n)"
    using assms(2) last_in_set by blast
  have p: "parseInt (id_ms (last (milestones st))) = Some (int n)"
    by (simp add: n parseInt_numToString)
  have nth: "milestones st ! (length (milestones st) - 1) = last (milestones st)"
    using False by (simp add: last_conv_nth)
  have next_id: "numToString (int n + 1) = numToString (int (Suc n))"
    by (simp add: add.commute)
  have "milestones (addMilestone st) = milestones st @
          [\<lparr>id_ms = numToString (int n + 1), title = trim (title_nm (newMilestone st)),
            description_ms = trim (description_nm (newMilestone st)), completed = False\<rparr>]"
    using assms(1) False p nth by (simp add: addMilestone_def)
  moreover have "the (idNumber (last (milestones st))) + 1 = int n + 1"
    by (simp add: idNumber_def p)
  ultimately show ?thesis
    using False next_id by (auto simp del: of_nat_Suc intro!: exI [of _ "Suc n"]) 
qed

lemma canonicalIds_add:
  assumes "canonicalIds (milestones st)"
  shows "canonicalIds (milestones (addMilestone st))"
proof (cases "trim (title_nm (newMilestone st)) = []")
  case True
  then show ?thesis using assms by (simp add: addMilestone_def)
next
  case False
  let ?ms = "milestones st"
  have can: "\<forall>m \<in> set ?ms. \<exists>n. id_ms m = numToString (int n)"
    using assms by (simp add: canonicalIds_def)
  obtain m k where m: "milestones (addMilestone st) = ?ms @ [m]"
      "id_ms m = numToString (int k)"
      "int k = (if ?ms = [] then 1 else the (idNumber (last ?ms)) + 1)"
    using addMilestone_ids [OF False can] by blast
  have num: "idNumber m = Some (int k)" using m(2) by (rule idNumber_canonical)
  have below: "the (idNumber x) < the (idNumber m)" if x: "x \<in> set ?ms" for x
  proof -
    have ne: "?ms \<noteq> []" using x by auto
    then obtain ys where ys: "?ms = ys @ [last ?ms]"
      by (metis append_butlast_last_id)
    have srt: "sorted_wrt (\<lambda>a c. the (idNumber a) < the (idNumber c)) (ys @ [last ?ms])"
      using assms ys by (simp add: canonicalIds_def)
    have "the (idNumber x) \<le> the (idNumber (last ?ms))"
    proof (cases "x = last ?ms")
      case True then show ?thesis by simp
    next
      case False
      then have "x \<in> set ys" using x ys by (metis Un_iff empty_iff insert_iff list.set(1) list.simps(15) set_append)
      then show ?thesis using srt by (simp add: sorted_wrt_append less_imp_le)
    qed
    then show ?thesis using num m(3) ne by simp
  qed
  show ?thesis
    unfolding m(1) canonicalIds_def
    using assms m(2) below by (auto simp: canonicalIds_def sorted_wrt_append)
qed

lemma canonicalIds_remove:
  "canonicalIds (milestones st) \<Longrightarrow> canonicalIds (milestones (removeMilestone i st))"
  by (simp add: canonicalIds_def removeMilestone_def sorted_wrt_filter)

lemma canonicalIds_action:
  "canonicalIds (milestones st) \<Longrightarrow> canonicalIds (milestones (milestoneAction st a))"
proof (cases a)
  case (AddMilestone t d)
  assume "canonicalIds (milestones st)"
  then have "canonicalIds (milestones (setNewMilestone \<lparr>title_nm = t, description_nm = d\<rparr> st))"
    by (simp add: setNewMilestone_def)
  then show ?thesis unfolding AddMilestone milestoneAction.simps by (rule canonicalIds_add)
next
  case (RemoveMilestone i)
  assume "canonicalIds (milestones st)"
  then show ?thesis unfolding RemoveMilestone milestoneAction.simps by (rule canonicalIds_remove)
qed

lemma canonicalIds_actions:
  "canonicalIds (milestones st) \<Longrightarrow> canonicalIds (milestones (milestoneActions acts st))"
  unfolding milestoneActions_def
  by (induction acts arbitrary: st) (simp_all add: canonicalIds_action)

text \<open>
  C7. From a view with no milestone, after any sequence of adds and removes the identifiers
  of the list all read as numbers, increase strictly along the list and are pairwise
  different; and an add with a title that is not blank appends the identifier \<open>1\<close> to the
  empty list, and otherwise the number of the last identifier plus one.
\<close>

theorem milestone_ids_sequential:
  assumes "milestones st0 = []"
  shows "sequentialIds (milestones (milestoneActions acts st0))
       \<and> (trim t \<noteq> [] \<longrightarrow>
            map id_ms (milestones (milestoneAction (milestoneActions acts st0) (AddMilestone t d)))
              = map id_ms (milestones (milestoneActions acts st0))
                @ [if milestones (milestoneActions acts st0) = [] then js ''1''
                   else numToString (the (idNumber (last (milestones (milestoneActions acts st0)))) + 1)])"
proof -
  let ?st = "milestoneActions acts st0"
  have c: "canonicalIds (milestones ?st)"
    using assms by (intro canonicalIds_actions) (simp add: canonicalIds_def)
  have s: "sequentialIds (milestones ?st)" using c by (rule canonical_sequential)
  have "map id_ms (milestones (milestoneAction ?st (AddMilestone t d)))
          = map id_ms (milestones ?st)
            @ [if milestones ?st = [] then js ''1''
               else numToString (the (idNumber (last (milestones ?st))) + 1)]"
    if t: "trim t \<noteq> []"
  proof -
    let ?st' = "setNewMilestone \<lparr>title_nm = t, description_nm = d\<rparr> ?st"
    have ms: "milestones ?st' = milestones ?st" by (simp add: setNewMilestone_def)
    have t': "trim (title_nm (newMilestone ?st')) \<noteq> []" using t by (simp add: setNewMilestone_def)
    have can: "\<forall>m \<in> set (milestones ?st'). \<exists>n. id_ms m = numToString (int n)"
      using c by (simp add: canonicalIds_def ms)
    show ?thesis
      using addMilestone_ids [OF t' can] by (auto simp: ms)
  qed
  then show ?thesis using s by simp
qed

section \<open>Instances\<close>

theorem milestone_ids_sequential_witness:
  "milestones exampleState = []
   \<and> map id_ms (milestones (milestoneActions
        [AddMilestone (js ''Kickoff'') [], AddMilestone (js ''Entrega'') [],
         AddMilestone (js ''Revisao'') [], RemoveMilestone (js ''2'')] exampleState))
       = [js ''1'', js ''3'']
   \<and> sequentialIds (milestones (milestoneActions
        [AddMilestone (js ''Kickoff'') [], AddMilestone (js ''Entrega'') [],
         AddMilestone (js ''Revisao'') [], RemoveMilestone (js ''2'')] exampleState))
   \<and> map id_ms (milestones (milestoneAction (milestoneActions
        [AddMilestone (js ''Kickoff'') [], AddMilestone (js ''Entrega'') [],
         AddMilestone (js ''Revisao'') [], RemoveMilestone (js ''2'')] exampleState)
          (AddMilestone (js ''Fim'') [])))
       = [js ''1'', js ''3'', js ''4'']"
proof -
  let ?acts = "[AddMilestone (js ''Kickoff'') [], AddMilestone (js ''Entrega'') [],
         AddMilestone (js ''Revisao'') [], RemoveMilestone (js ''2'')]"
  let ?m3 = "\<lparr>id_ms = js ''3'', title = js ''Revisao'', description_ms = [], completed = False\<rparr>"
  have e: "milestones exampleState = []" by (simp add: exampleState_def)
  have t: "trim (js ''Fim'') \<noteq> []" by (simp add: trim_def js_def isWhiteSpace_def)
  have ms: "milestones (milestoneActions ?acts exampleState)
              = [\<lparr>id_ms = js ''1'', title = js ''Kickoff'', description_ms = [], completed = False\<rparr>, ?m3]"
    by (simp add: milestoneActions_def exampleState_def setNewMilestone_def addMilestone_def
          removeMilestone_def trim_def js_def isWhiteSpace_def parseInt_def digitValue_def
          numToString_def digits.simps)
  have nx: "numToString (the (idNumber ?m3) + 1) = js ''4''"
    by (simp add: idNumber_def parseInt_def js_def isWhiteSpace_def digitValue_def
          numToString_def digits.simps)
  show ?thesis
    using e t milestone_ids_sequential [OF e, of ?acts "js ''Fim''" "[]"]
    by (simp add: ms nx)
qed

theorem addTeamMember_removeTeamMember_witness:
  "trim (js '' Bia '') \<noteq> [] \<and>
   team (addTeamMember (exampleState\<lparr>team := [js ''Ana''], newTeamMember := js '' Bia ''\<rparr>))
     = [js ''Ana'', js ''Bia''] \<and>
   team (removeTeamMember 1 (addTeamMember (exampleState\<lparr>team := [js ''Ana''], newTeamMember := js '' Bia ''\<rparr>)))
     = [js ''Ana'']"
proof -
  have h: "trim (js '' Bia '') \<noteq> []" and t: "trim (js '' Bia '') = js ''Bia''"
    by (simp_all add: trim_def js_def isWhiteSpace_def)
  show ?thesis
    using h addTeamMember_removeTeamMember [OF h, where t = "[js ''Ana'']" and st = exampleState]
    by (simp add: t)
qed

theorem add_blank_noop_witness:
  "trim (js ''   '') = [] \<and>
   addTeamMember (exampleState\<lparr>newTeamMember := js ''   ''\<rparr>) = exampleState\<lparr>newTeamMember := js ''   ''\<rparr> \<and>
   addMilestone (exampleState\<lparr>newMilestone := \<lparr>title_nm = js ''   '', description_nm = js ''x''\<rparr>\<rparr>)
     = exampleState\<lparr>newMilestone := \<lparr>title_nm = js ''   '', description_nm = js ''x''\<rparr>\<rparr>"
proof -
  have h: "trim (js ''   '') = []"
    by (simp add: trim_def js_def isWhiteSpace_def)
  show ?thesis
    using h add_blank_noop [of "exampleState\<lparr>newTeamMember := js ''   ''\<rparr>"]
      add_blank_noop [of "exampleState\<lparr>newMilestone := \<lparr>title_nm = js ''   '', description_nm = js ''x''\<rparr>\<rparr>"]
    by simp
qed

theorem addTechnology_new_category_witness:
  "techStack (addTechnology exampleState)
     = [\<lparr>category = js ''Frontend'', technologies = [js ''React'', js ''Vite'']\<rparr>,
        \<lparr>category = js ''Backend'', technologies = [js ''Node'']\<rparr>,
        \<lparr>category = js ''Database'', technologies = [js ''Postgres'']\<rparr>]
   \<and> techStack (addTechnology (setNewTechnology (js ''Redis '') (addTechnology exampleState)))
     = [\<lparr>category = js ''Frontend'', technologies = [js ''React'', js ''Vite'']\<rparr>,
        \<lparr>category = js ''Backend'', technologies = [js ''Node'']\<rparr>,
        \<lparr>category = js ''Database'', technologies = [js ''Postgres'', js ''Redis'']\<rparr>]"
proof -
  have h1: "\<forall>s \<in> set (techStack exampleState). category s \<noteq> js ''Database''"
    by (simp add: exampleState_def js_def)
  have h2: "category_nt (newTech exampleState) = js ''Database''"
    by (simp add: exampleState_def)
  have h3: "technology (newTech exampleState) = js '' Postgres''"
    by (simp add: exampleState_def)
  have h4: "trim (js '' Postgres'') \<noteq> []" and t4: "trim (js '' Postgres'') = js ''Postgres''"
    by (simp_all add: trim_def js_def isWhiteSpace_def)
  have h5: "trim (js ''Redis '') \<noteq> []" and t5: "trim (js ''Redis '') = js ''Redis''"
    by (simp_all add: trim_def js_def isWhiteSpace_def)
  have ts: "techStack exampleState
     = [\<lparr>category = js ''Frontend'', technologies = [js ''React'', js ''Vite'']\<rparr>,
        \<lparr>category = js ''Backend'', technologies = [js ''Node'']\<rparr>]"
    by (simp add: exampleState_def)
  show ?thesis
    using addTechnology_new_category [OF h1 h2 h3 h4 h5]
    by (simp add: t4 t5 ts)
qed

theorem removeTechnology_group_witness:
  "techStack (removeTechnology (js ''Backend'') (js ''Node'') exampleState)
     = [\<lparr>category = js ''Frontend'', technologies = [js ''React'', js ''Vite'']\<rparr>]
   \<and> techStack (removeTechnology (js ''Frontend'') (js ''React'') exampleState)
     = [\<lparr>category = js ''Frontend'', technologies = [js ''Vite'']\<rparr>,
        \<lparr>category = js ''Backend'', technologies = [js ''Node'']\<rparr>]"
proof -
  let ?fe = "\<lparr>category = js ''Frontend'', technologies = [js ''React'', js ''Vite'']\<rparr>"
  let ?be = "\<lparr>category = js ''Backend'', technologies = [js ''Node'']\<rparr>"
  have a: "techStack exampleState = [?fe] @ ?be # []"
    by (simp add: exampleState_def)
  have b: "techStack exampleState = [] @ ?fe # [?be]"
    by (simp add: exampleState_def)
  have ne: "js ''Frontend'' \<noteq> js ''Backend''" "js ''React'' \<noteq> js ''Vite''"
    "js ''Vite'' \<noteq> js ''React''"
    by (simp_all add: js_def)
  have "techStack (removeTechnology (category ?be) (js ''Node'') exampleState) = [?fe]"
    using removeTechnology_group [OF a, of "js ''Node''", THEN conjunct2] ne by simp
  moreover have "techStack (removeTechnology (category ?fe) (js ''React'') exampleState)
                   = [?fe\<lparr>technologies := [js ''Vite'']\<rparr>, ?be]"
    using removeTechnology_group [OF b, of "js ''React''", THEN conjunct2] ne by simp
  ultimately show ?thesis by simp
qed

theorem generateProjectPDF_no_optional_fields_witness:
  "description bareProject = [] \<and> techStack_p bareProject = [] \<and> milestones_p bareProject = []
   \<and> \<not> truthy (repository bareProject) \<and> \<not> truthy (documentation bareProject)
   \<and> \<not> truthy (notes_p bareProject)
   \<and> toDataURL exampleEnv (uniqueCode_p bareProject) = Inr (js ''data:image/png;base64,PRJ-2025-7-K3X9QA'')
   \<and> renderLinks exampleEnv (headerColorOrDefault None) bareProject (newDoc, 70) = Inr (newDoc, 70)
   \<and> renderNotes exampleEnv (headerColorOrDefault None) bareProject (newDoc, 70) = Inr (newDoc, 70)
   \<and> \<not> isl (generateProjectPDF exampleEnv bareProject None None)
   \<and> singlePage (outputDoc (projr (generateProjectPDF exampleEnv bareProject None None)))"
proof -
  have h: "description bareProject = []" "techStack_p bareProject = []" "milestones_p bareProject = []"
    "\<not> truthy (repository bareProject)" "\<not> truthy (documentation bareProject)"
    "\<not> truthy (notes_p bareProject)"
    by (simp_all add: bareProject_def truthy_def)
  have q: "toDataURL exampleEnv (uniqueCode_p bareProject) = Inr (js ''data:image/png;base64,PRJ-2025-7-K3X9QA'')"
    by (simp add: exampleEnv_def bareProject_def js_def)
  let ?D = "renderFooter exampleEnv (fst (renderInfo exampleEnv (headerColorOrDefault None) bareProject
              (renderStatus exampleEnv (headerColorOrDefault None) bareProject
                 (renderHeader exampleEnv (headerColorOrDefault None) bareProject
                    (js ''data:image/png;base64,PRJ-2025-7-K3X9QA'') newDoc, 70))))"
  note inst = generateProjectPDF_no_optional_fields [OF h q, where hc = "headerColorOrDefault None"
      and s = "(newDoc, 70)" and headerColor = None and opts = None]
  have l: "renderLinks exampleEnv (headerColorOrDefault None) bareProject (newDoc, 70) = Inr (newDoc, 70)"
    using inst by blast
  have n: "renderNotes exampleEnv (headerColorOrDefault None) bareProject (newDoc, 70) = Inr (newDoc, 70)"
    using inst by blast
  obtain out where o: "generateProjectPDF exampleEnv bareProject None None = Inr out"
      "outputDoc out = ?D"
    using inst by blast
  have sp: "singlePage ?D"
    using inst by blast
  show ?thesis
    using h q l n sp by (simp add: o)
qed

theorem generateProjectPDF_failure_witness:
  "toDataURL exampleEnv (uniqueCode_p (linkedProject\<lparr>uniqueCode_p := []\<rparr>))
     = Inl (QRCodeError (js ''No input text''))
   \<and> generateProjectPDF exampleEnv (linkedProject\<lparr>uniqueCode_p := []\<rparr>) None (Some printOpts)
     = Inl (QRCodeError (js ''No input text''))
   \<and> toDataURL exampleEnv (uniqueCode_p linkedProject) = Inr (js ''data:image/png;base64,PRJ-2025-7-K3X9QA'')
   \<and> truthy (repository linkedProject) \<and> truthy (documentation linkedProject)
   \<and> truthy (notes_p linkedProject)
   \<and> \<not> isl (generateProjectPDF exampleEnv linkedProject None (Some printOpts))
   \<and> \<not> isl (layoutDocument exampleEnv (headerColorOrDefault None) linkedProject
               (js ''data:image/png;base64,PRJ-2025-7-K3X9QA''))"
proof -
  have f: "toDataURL exampleEnv (uniqueCode_p (linkedProject\<lparr>uniqueCode_p := []\<rparr>))
             = Inl (QRCodeError (js ''No input text''))"
    by (simp add: exampleEnv_def)
  have q: "toDataURL exampleEnv (uniqueCode_p linkedProject) = Inr (js ''data:image/png;base64,PRJ-2025-7-K3X9QA'')"
    by (simp add: exampleEnv_def linkedProject_def bareProject_def js_def)
  have t: "truthy (repository linkedProject)" "truthy (documentation linkedProject)"
    "truthy (notes_p linkedProject)"
    by (simp_all add: linkedProject_def truthy_def js_def)
  have a: "generateProjectPDF exampleEnv (linkedProject\<lparr>uniqueCode_p := []\<rparr>) None (Some printOpts)
             = Inl (QRCodeError (js ''No input text''))"
    using f
      generateProjectPDF_failure [of exampleEnv "linkedProject\<lparr>uniqueCode_p := []\<rparr>" None
        "Some printOpts" "QRCodeError (js ''No input text'')"]
    by blast
  have "\<exists>d out. layoutDocument exampleEnv (headerColorOrDefault None) linkedProject
                     (js ''data:image/png;base64,PRJ-2025-7-K3X9QA'') = Inr d
                \<and> prepareOutput exampleEnv linkedProject (Some printOpts) d = Inr out
                \<and> outputDoc out = d
                \<and> generateProjectPDF exampleEnv linkedProject None (Some printOpts) = Inr out"
    using generateProjectPDF_failure [of exampleEnv linkedProject None "Some printOpts", THEN conjunct2,
        rule_format, OF q] .
  then obtain d out where
    "layoutDocument exampleEnv (headerColorOrDefault None) linkedProject
       (js ''data:image/png;base64,PRJ-2025-7-K3X9QA'') = Inr d"
    "generateProjectPDF exampleEnv linkedProject None (Some printOpts) = Inr out"
    by blast
  then have b: "\<not> isl (generateProjectPDF exampleEnv linkedProject None (Some printOpts))
         \<and> \<not> isl (layoutDocument exampleEnv (headerColorOrDefault None) linkedProject
               (js ''data:image/png;base64,PRJ-2025-7-K3X9QA''))"
    by simp
  show ?thesis using f q t a b by simp
qed

end
